theory Spec2Isabelle
  imports Main "HOL-Library.Sublist"
begin

section \<open>JavaScript values and string operations used by \<open>opera.js\<close>\<close>

text \<open>
  The values that flow through \<open>opera.js\<close> are strings, \<open>null\<close> and \<open>undefined\<close>.
  A string is a list of characters; each \<open>char\<close> stands for one code unit below 256.
\<close>

datatype js_value = JNull | JUndefined | JString string

text \<open>JavaScript truthiness: \<open>null\<close>, \<open>undefined\<close> and the empty string are falsy.\<close>

fun truthy :: "js_value \<Rightarrow> bool" where
  "truthy (JString s) = (s \<noteq> [])"
| "truthy JNull = False"
| "truthy JUndefined = False"

text \<open>An absent result is \<open>null\<close> or \<open>undefined\<close>.\<close>

fun absent :: "js_value \<Rightarrow> bool" where
  "absent JNull = True"
| "absent JUndefined = True"
| "absent (JString s) = False"

text \<open>
  The characters \<open>String.prototype.trim\<close> removes (WhiteSpace and LineTerminator of
  ECMAScript), as far as they lie below 256: TAB, LF, VT, FF, CR, SPACE and NBSP.
\<close>

definition isWhiteSpace :: "char \<Rightarrow> bool" where
  "isWhiteSpace c =
     (c \<in> set [CHR 0x09, CHR 0x0A, CHR 0x0B, CHR 0x0C, CHR 0x0D, CHR 0x20, CHR 0xA0])"

text \<open>\<open>s.trim()\<close>: white space is removed from both ends.\<close>

definition trim :: "string \<Rightarrow> string" where
  "trim s = rev (dropWhile isWhiteSpace (rev (dropWhile isWhiteSpace s)))"

text \<open>
  \<open>s.split(sep)\<close> for a separator of one character: the string is cut at every
  occurrence of the separator; the empty string gives one empty field.
\<close>

fun js_split :: "char \<Rightarrow> string \<Rightarrow> string list" where
  "js_split sep [] = [[]]"
| "js_split sep (c # cs) =
     (if c = sep then [] # js_split sep cs
      else (case js_split sep cs of
              f # fs \<Rightarrow> (c # f) # fs
            | [] \<Rightarrow> [[c]]))"

text \<open>\<open>xs[i]\<close> on an array of strings: an index out of range gives \<open>undefined\<close>.\<close>

definition js_index :: "string list \<Rightarrow> nat \<Rightarrow> js_value" where
  "js_index xs i = (if i < length xs then JString (xs ! i) else JUndefined)"

text \<open>
  The expression \<open>v ? v.trim().split(' ')[i] : null\<close>, which lines 47 and 85 of
  \<open>opera.js\<close> apply to the output of a command.
\<close>

definition trimmedField :: "nat \<Rightarrow> js_value \<Rightarrow> js_value" where
  "trimmedField i v =
     (case v of
        JString s \<Rightarrow> (if s \<noteq> [] then js_index (js_split CHR '' '' (trim s)) i else JNull)
      | JNull \<Rightarrow> JNull
      | JUndefined \<Rightarrow> JNull)"

subsection \<open>The regular expression of line 99\<close>

text \<open>
  A regular expression anchored at the start of the string, built from literal characters
  and optional literal characters: \<open>/^v\.?/\<close> is \<open>[Lit v, Opt .]\<close>.
\<close>

datatype regex_item = Lit char | Opt char

text \<open>
  The length of the match of the items at the start of the string, if there is one. An
  optional character is taken when it is there and the rest still matches (greedy, with
  backtracking).
\<close>

fun match_here :: "regex_item list \<Rightarrow> string \<Rightarrow> nat option" where
  "match_here [] s = Some 0"
| "match_here (Lit c # rs) s =
     (case s of
        [] \<Rightarrow> None
      | x # xs \<Rightarrow> (if x = c then map_option Suc (match_here rs xs) else None))"
| "match_here (Opt c # rs) s =
     (case s of
        [] \<Rightarrow> match_here rs s
      | x # xs \<Rightarrow>
          (if x = c then
             (case match_here rs xs of
                Some n \<Rightarrow> Some (Suc n)
              | None \<Rightarrow> match_here rs s)
           else match_here rs s))"

text \<open>
  \<open>s.replace(/^.../, replacement)\<close> without the global flag, for a replacement that has
  no \<open>$\<close> pattern: the match at the start, if any, is replaced.
\<close>

definition js_replace :: "regex_item list \<Rightarrow> string \<Rightarrow> string \<Rightarrow> string" where
  "js_replace re replacement s =
     (case match_here re s of
        None \<Rightarrow> s
      | Some n \<Rightarrow> replacement @ drop n s)"

section \<open>The host and the collaborators\<close>

text \<open>
  \<open>opera.js\<close> reads the operating system through \<open>os\<close>, joins paths with \<open>path.join\<close> and
  calls \<open>InstallerUtils\<close>. None of them is part of the file; they are fields of the host.
  A collaborator that can fail returns \<open>Inl\<close> with the reason. The probes answer a string,
  \<open>null\<close> or \<open>undefined\<close>; \<open>fetchLatestGitHubTag\<close> answers a string or fails, as the
  interface of the specification says.
\<close>

type_synonym reason = string

record host =
  os_platform :: string
  os_userInfo_username :: "reason + string"
  path_join :: "string \<Rightarrow> string \<Rightarrow> string"
  getMacAppVersion :: "string \<Rightarrow> js_value"
  getCommandOutputOrNullIfMissing :: "string list \<Rightarrow> js_value"
  getWindowsExeVersion :: "string \<Rightarrow> js_value"
  fetchLatestGitHubTag :: "string \<Rightarrow> reason + string"
  installBinary :: "string \<Rightarrow> string \<Rightarrow> string \<Rightarrow> string \<Rightarrow> bool \<Rightarrow> reason + js_value"

text \<open>Every call of an \<open>InstallerUtils\<close> function is recorded, with its arguments.\<close>

datatype call =
    GetMacAppVersion string
  | GetCommandOutputOrNullIfMissing "string list"
  | GetWindowsExeVersion string
  | FetchLatestGitHubTag string
  | InstallBinary string string string string bool

text \<open>The calls that reach the network or write to the file system.\<close>

fun network_or_write :: "call \<Rightarrow> bool" where
  "network_or_write (FetchLatestGitHubTag repo) = True"
| "network_or_write (InstallBinary url name out dir z) = True"
| "network_or_write (GetMacAppVersion app) = False"
| "network_or_write (GetCommandOutputOrNullIfMissing argv) = False"
| "network_or_write (GetWindowsExeVersion p) = False"

text \<open>
  \<open>Error msg\<close> is \<open>throw new Error(msg)\<close> in \<open>opera.js\<close>; \<open>External r\<close> is a failure of a
  collaborator, which the \<open>await\<close> passes on to the caller.
\<close>

datatype error = Error string | External reason

text \<open>A run of a method: the calls it made, in order, and how it ended.\<close>

type_synonym 'a run = "call list \<times> (error + 'a)"

section \<open>\<open>OperaWebDriverInstaller\<close>\<close>

definition getBrowserName :: string where
  "getBrowserName = ''Opera''"

definition getDriverName :: string where
  "getDriverName = ''operadriver''"

definition backslash :: char where
  "backslash = CHR 0x5C"

text \<open>The array \<open>possiblePaths\<close> of lines 52 to 56.\<close>

definition possiblePaths :: "string \<Rightarrow> string list" where
  "possiblePaths username =
     [''C:'' @ backslash # ''Program Files'' @ backslash # ''Opera'' @ backslash # ''opera.exe'',
      ''C:'' @ backslash # ''Program Files (x86)'' @ backslash # ''Opera'' @ backslash # ''opera.exe'',
      ''C:'' @ backslash # ''Users'' @ backslash # username @ backslash # ''AppData'' @ backslash #
        ''Local'' @ backslash # ''Programs'' @ backslash # ''Opera'' @ backslash # ''opera.exe'']"

text \<open>
  The loop of lines 58 to 63: \<open>Some version\<close> when the loop returns from the method,
  \<open>None\<close> when it runs to its end.
\<close>

fun forPossiblePaths :: "host \<Rightarrow> string list \<Rightarrow> call list \<times> js_value option" where
  "forPossiblePaths h [] = ([], None)"
| "forPossiblePaths h (exePath # rest) =
     (let version = getWindowsExeVersion h exePath in
      if truthy version then ([GetWindowsExeVersion exePath], Some version)
      else (case forPossiblePaths h rest of
              (calls, r) \<Rightarrow> (GetWindowsExeVersion exePath # calls, r)))"

definition unsupportedPlatform :: "host \<Rightarrow> error" where
  "unsupportedPlatform h = Error (''Unsupported platform: '' @ os_platform h)"

definition getInstalledBrowserVersion :: "host \<Rightarrow> js_value run" where
  "getInstalledBrowserVersion h =
     (if os_platform h = ''darwin'' then
        (let first = getMacAppVersion h ''Opera'' in
         if truthy first then ([GetMacAppVersion ''Opera''], Inr first)
         else ([GetMacAppVersion ''Opera'', GetMacAppVersion ''Opera Stable''],
               Inr (getMacAppVersion h ''Opera Stable'')))
      else if os_platform h = ''linux'' then
        (let version = getCommandOutputOrNullIfMissing h [''/snap/bin/opera'', ''--version''] in
         if \<not> truthy version then
           (let version = getCommandOutputOrNullIfMissing h [''opera'', ''--version''] in
            ([GetCommandOutputOrNullIfMissing [''/snap/bin/opera'', ''--version''],
              GetCommandOutputOrNullIfMissing [''opera'', ''--version'']],
             Inr (trimmedField 0 version)))
         else ([GetCommandOutputOrNullIfMissing [''/snap/bin/opera'', ''--version'']],
               Inr (trimmedField 0 version)))
      else if os_platform h = ''win32'' then
        (case os_userInfo_username h of
           Inl r \<Rightarrow> ([], Inl (External r))
         | Inr username \<Rightarrow>
             (case forPossiblePaths h (possiblePaths username) of
                (calls, Some version) \<Rightarrow> (calls, Inr version)
              | (calls, None) \<Rightarrow>
                  (calls @ [GetWindowsExeVersion ''opera.exe''],
                   Inr (getWindowsExeVersion h ''opera.exe''))))
      else ([], Inl (unsupportedPlatform h)))"

definition getInstalledDriverVersion :: "host \<Rightarrow> string \<Rightarrow> js_value run" where
  "getInstalledDriverVersion h outputDirectory =
     (let outputPath = path_join h outputDirectory getDriverName;
          outputPath = (if os_platform h = ''win32'' then outputPath @ ''.exe'' else outputPath);
          output = getCommandOutputOrNullIfMissing h [outputPath, ''--version'']
      in ([GetCommandOutputOrNullIfMissing [outputPath, ''--version'']],
          Inr (trimmedField 1 output)))"

definition getBestDriverVersion :: "host \<Rightarrow> js_value \<Rightarrow> string run" where
  "getBestDriverVersion h browserVersion =
     ([FetchLatestGitHubTag ''operasoftware/operachromiumdriver''],
      (case fetchLatestGitHubTag h ''operasoftware/operachromiumdriver'' of
         Inl r \<Rightarrow> Inl (External r)
       | Inr tag \<Rightarrow> Inr (js_replace [Lit CHR ''v'', Opt CHR ''.''] [] tag)))"

text \<open>
  Lines 106 to 118 of \<open>install\<close>: the platform tag and the name of the binary in the
  archive, or the error of the last branch.
\<close>

definition installPlatform :: "host \<Rightarrow> error + string \<times> string" where
  "installPlatform h =
     (let binaryName = ''operadriver'' in
      if os_platform h = ''linux'' then Inr (''linux64'', binaryName)
      else if os_platform h = ''darwin'' then Inr (''mac64'', binaryName)
      else if os_platform h = ''win32'' then Inr (''win64'', binaryName @ ''.exe'')
      else Inl (unsupportedPlatform h))"

definition install :: "host \<Rightarrow> string \<Rightarrow> string \<Rightarrow> js_value run" where
  "install h driverVersion outputDirectory =
     (case installPlatform h of
        Inl e \<Rightarrow> ([], Inl e)
      | Inr (platform, binaryName) \<Rightarrow>
          (let archiveUrl =
                 ''https://github.com/operasoftware/operachromiumdriver/releases/download/'' @
                 ''v.'' @ driverVersion @ ''/operadriver_'' @ platform @ ''.zip'';
               nameInArchive = ''operadriver_'' @ platform @ ''/'' @ binaryName;
               outputName = getDriverName;
               outputName = (if os_platform h = ''win32'' then outputName @ ''.exe'' else outputName)
           in ([InstallBinary archiveUrl nameInArchive outputName outputDirectory True],
               (case installBinary h archiveUrl nameInArchive outputName outputDirectory True of
                  Inl r \<Rightarrow> Inl (External r)
                | Inr artifact \<Rightarrow> Inr artifact))))"

section \<open>Tokens as the specification words them\<close>

text \<open>
  The specification speaks of the whitespace-delimited tokens of a text: the maximal runs of
  characters that are not white space. This is the specification's reading, not the
  code's; it is compared with \<open>js_split\<close> below.
\<close>

function spec_whitespace_tokens :: "string \<Rightarrow> string list" where
  "spec_whitespace_tokens [] = []"
| "spec_whitespace_tokens (c # cs) =
     (if isWhiteSpace c then spec_whitespace_tokens cs
      else takeWhile (\<lambda>x. \<not> isWhiteSpace x) (c # cs) #
           spec_whitespace_tokens (dropWhile (\<lambda>x. \<not> isWhiteSpace x) cs))"
  by pat_completeness auto
termination
  by (relation "measure length") (auto simp: length_dropWhile_le less_Suc_eq_le)

text \<open>
  The specification's sentence "if output is produced, the i-th whitespace-delimited token
  of the trimmed output, otherwise absent" (tokens counted from 0).
\<close>

definition spec_trimmedToken :: "nat \<Rightarrow> js_value \<Rightarrow> js_value" where
  "spec_trimmedToken i v =
     (case v of
        JString s \<Rightarrow> (if s \<noteq> [] then js_index (spec_whitespace_tokens (trim s)) i else JNull)
      | JNull \<Rightarrow> JNull
      | JUndefined \<Rightarrow> JNull)"

section \<open>Example hosts\<close>

text \<open>
  A Linux host on which no browser and no driver is installed, the latest tag is
  \<open>v114.0.5735.90\<close> and every archive installs.
\<close>

definition example_host :: host where
  "example_host =
     \<lparr>os_platform = ''linux'',
      os_userInfo_username = Inr ''alice'',
      path_join = (\<lambda>d f. d @ ''/'' @ f),
      getMacAppVersion = (\<lambda>app. JNull),
      getCommandOutputOrNullIfMissing = (\<lambda>argv. JNull),
      getWindowsExeVersion = (\<lambda>p. JNull),
      fetchLatestGitHubTag = (\<lambda>repo. Inr ''v114.0.5735.90''),
      installBinary = (\<lambda>url name out dir isZip. Inr (JString (dir @ ''/'' @ out)))\<rparr>"

text \<open>A host whose every command prints the given text.\<close>

definition printing_host :: "string \<Rightarrow> host" where
  "printing_host out =
     example_host\<lparr>getCommandOutputOrNullIfMissing := (\<lambda>argv. JString out)\<rparr>"

text \<open>A driver that separates its name from its version with a TAB.\<close>

definition tab_output :: string where
  "tab_output = ''operadriver'' @ CHR 0x09 # ''114.0.5735.90''"

text \<open>A driver that separates its name from its version with two spaces.\<close>

definition two_space_output :: string where
  "two_space_output = ''operadriver  114.0.5735.90''"

text \<open>A browser that prints its version and, on a second line, its channel.\<close>

definition two_line_output :: string where
  "two_line_output = ''114.0.5735.90'' @ CHR 0x0A # ''stable'' @ [CHR 0x0A]"

text \<open>A host on which the latest tag is the given one.\<close>

definition tag_host :: "string \<Rightarrow> host" where
  "tag_host tag = example_host\<lparr>fetchLatestGitHubTag := (\<lambda>repo. Inr tag)\<rparr>"

text \<open>A Windows host with Opera under \<open>Program Files (x86)\<close> only.\<close>

definition windows_host :: host where
  "windows_host =
     example_host
       \<lparr>os_platform := ''win32'',
        getWindowsExeVersion :=
          (\<lambda>p. if p = ''C:'' @ CHR 0x5C # ''Program Files (x86)'' @ CHR 0x5C # ''Opera'' @
                        CHR 0x5C # ''opera.exe''
               then JString ''114.0.5282.102'' else JNull)\<rparr>"

text \<open>A macOS host with the given answers for the bundles \<open>Opera\<close> and \<open>Opera Stable\<close>.\<close>

definition mac_host :: "js_value \<Rightarrow> js_value \<Rightarrow> host" where
  "mac_host opera operaStable =
     example_host
       \<lparr>os_platform := ''darwin'',
        getMacAppVersion :=
          (\<lambda>app. if app = ''Opera'' then opera
                 else if app = ''Opera Stable'' then operaStable
                 else JNull)\<rparr>"

text \<open>A Linux host with no Snap package, whose \<open>opera\<close> on the PATH prints a version.\<close>

definition path_only_host :: host where
  "path_only_host =
     example_host
       \<lparr>getCommandOutputOrNullIfMissing :=
          (\<lambda>argv. if argv = [''opera'', ''--version'']
                  then JString (''114.0.5282.102 stable'' @ [CHR 0x0A]) else JNull)\<rparr>"

section \<open>Facts about the string operations\<close>

lemma js_split_not_Nil: "js_split sep s \<noteq> []"
  by (induction s) (auto split: list.splits)

lemma js_split_no_sep: "sep \<notin> set s \<Longrightarrow> js_split sep s = [s]"
  by (induction s) auto

lemma js_split_at_sep: "sep \<notin> set a \<Longrightarrow> js_split sep (a @ sep # r) = a # js_split sep r"
  by (induction a) auto

lemma hd_js_split: "hd (js_split sep s) = takeWhile (\<lambda>c. c \<noteq> sep) s"
  by (induction s) (auto simp: js_split_not_Nil split: list.splits)

lemma length_js_split: "length (js_split sep s) = Suc (length (filter (\<lambda>c. c = sep) s))"
  by (induction s) (auto split: list.splits)

lemma js_split_decompose:
  "js_split sep s = takeWhile (\<lambda>c. c \<noteq> sep) s #
     (if sep \<in> set s then js_split sep (tl (dropWhile (\<lambda>c. c \<noteq> sep) s)) else [])"
  by (induction s) (auto split: list.splits)

lemma js_index_split_0:
  "js_index (js_split sep s) 0 = JString (takeWhile (\<lambda>c. c \<noteq> sep) s)"
  using js_split_not_Nil [of sep s] hd_js_split [of sep s]
  by (cases "js_split sep s") (auto simp: js_index_def)

lemma js_index_split_1:
  "js_index (js_split sep s) (Suc 0) =
     (if sep \<in> set s
      then JString (takeWhile (\<lambda>c. c \<noteq> sep) (tl (dropWhile (\<lambda>c. c \<noteq> sep) s)))
      else JUndefined)"
proof (cases "sep \<in> set s")
  case True
  then have "js_split sep s = takeWhile (\<lambda>c. c \<noteq> sep) s #
      js_split sep (tl (dropWhile (\<lambda>c. c \<noteq> sep) s))"
    using js_split_decompose [of sep s] by simp
  then have "js_index (js_split sep s) (Suc 0) =
      js_index (js_split sep (tl (dropWhile (\<lambda>c. c \<noteq> sep) s))) 0"
    by (simp add: js_index_def)
  with True show ?thesis by (simp add: js_index_split_0)
next
  case False
  then show ?thesis by (simp add: js_split_no_sep js_index_def)
qed

lemma replace_tag_prefix:
  "js_replace [Lit CHR ''v'', Opt CHR ''.''] [] tag =
     (if prefix ''v.'' tag then drop 2 tag else if prefix ''v'' tag then drop 1 tag else tag)"
proof (cases tag)
  case Nil
  then show ?thesis by (simp add: js_replace_def)
next
  case (Cons x xs)
  then show ?thesis by (cases xs) (auto simp: js_replace_def)
qed

lemma tokens_eq_split:
  "s \<noteq> [] \<Longrightarrow> (\<forall>c\<in>set s. isWhiteSpace c \<longrightarrow> c = CHR '' '') \<Longrightarrow>
   [] \<notin> set (js_split CHR '' '' s) \<Longrightarrow>
   spec_whitespace_tokens s = js_split CHR '' '' s"
proof (induction s rule: length_induct)
  case (1 s)
  let ?sp = "CHR '' ''"
  from \<open>s \<noteq> []\<close> obtain c cs where s: "s = c # cs" by (cases s) auto
  have ws: "\<And>x. x \<in> set s \<Longrightarrow> (\<not> isWhiteSpace x) = (x \<noteq> ?sp)"
    using "1.prems"(2) by (auto simp: isWhiteSpace_def)
  have c: "c \<noteq> ?sp" using "1.prems"(3) s by auto
  then have nws: "\<not> isWhiteSpace c" using ws [of c] s by simp
  have tw: "takeWhile (\<lambda>x. \<not> isWhiteSpace x) s = takeWhile (\<lambda>x. x \<noteq> ?sp) s"
    by (rule takeWhile_cong) (auto simp: ws)
  have dw: "dropWhile (\<lambda>x. \<not> isWhiteSpace x) cs = dropWhile (\<lambda>x. x \<noteq> ?sp) cs"
    by (rule dropWhile_cong) (auto simp: ws s)
  have unfold: "spec_whitespace_tokens s =
      takeWhile (\<lambda>x. x \<noteq> ?sp) s #
      spec_whitespace_tokens (dropWhile (\<lambda>x. x \<noteq> ?sp) cs)"
  proof -
    have "spec_whitespace_tokens (c # cs) =
        takeWhile (\<lambda>x. \<not> isWhiteSpace x) (c # cs) #
        spec_whitespace_tokens (dropWhile (\<lambda>x. \<not> isWhiteSpace x) cs)"
      using nws by (simp only: spec_whitespace_tokens.simps if_False)
    then show ?thesis using tw dw unfolding s by simp
  qed
  show ?case
  proof (cases "?sp \<in> set cs")
    case False
    then have d0: "dropWhile (\<lambda>x. x \<noteq> ?sp) cs = []" by auto
    have t0: "takeWhile (\<lambda>x. x \<noteq> ?sp) s = s" using False c s by auto
    have "spec_whitespace_tokens s = [s]"
      using unfold unfolding d0 t0 by simp
    moreover have "js_split ?sp s = [s]" using False c s js_split_no_sep [of ?sp s] by simp
    ultimately show ?thesis by simp
  next
    case True
    define r where "r = tl (dropWhile (\<lambda>x. x \<noteq> ?sp) cs)"
    have dne: "dropWhile (\<lambda>x. x \<noteq> ?sp) cs \<noteq> []"
      using True by (auto simp: dropWhile_eq_Nil_conv)
    then have "hd (dropWhile (\<lambda>x. x \<noteq> ?sp) cs) = ?sp"
      using hd_dropWhile [of "\<lambda>x. x \<noteq> ?sp" cs] by simp
    with dne have d: "dropWhile (\<lambda>x. x \<noteq> ?sp) cs = ?sp # r"
      unfolding r_def by (cases "dropWhile (\<lambda>x. x \<noteq> ?sp) cs") auto
    have "js_split ?sp s = takeWhile (\<lambda>x. x \<noteq> ?sp) s #
        js_split ?sp (tl (dropWhile (\<lambda>x. x \<noteq> ?sp) s))"
      using js_split_decompose [of ?sp s] True s by simp
    moreover have "dropWhile (\<lambda>x. x \<noteq> ?sp) s = ?sp # r" using s c d by simp
    ultimately have sp: "js_split ?sp s = takeWhile (\<lambda>x. x \<noteq> ?sp) s # js_split ?sp r"
      by simp
    then have nempty: "[] \<notin> set (js_split ?sp r)" using "1.prems"(3) by auto
    then have rne: "r \<noteq> []" by auto
    have "set r \<subseteq> set cs"
      using set_dropWhileD [of _ "\<lambda>x. x \<noteq> ?sp" cs] d by auto
    then have rws: "\<forall>c\<in>set r. isWhiteSpace c \<longrightarrow> c = ?sp" using "1.prems"(2) s by auto
    have "length r < length s"
      using length_dropWhile_le [of "\<lambda>x. x \<noteq> ?sp" cs] d s by auto
    then have ih: "spec_whitespace_tokens r = js_split ?sp r"
      using "1.IH" rne rws nempty by blast
    have "spec_whitespace_tokens (?sp # r) = spec_whitespace_tokens r"
      by (simp add: isWhiteSpace_def)
    then show ?thesis using unfold sp ih unfolding d by simp
  qed
qed

lemma trimmedField_0:
  "trimmedField 0 v =
     (case v of
        JString out \<Rightarrow>
          (if out = [] then JNull
           else JString (takeWhile (\<lambda>c. c \<noteq> CHR '' '') (trim out)))
      | JNull \<Rightarrow> JNull
      | JUndefined \<Rightarrow> JNull)"
  by (simp add: trimmedField_def js_index_split_0 split: js_value.splits)

lemma trimmedField_1:
  "trimmedField (Suc 0) v =
     (case v of
        JString out \<Rightarrow>
          (if out = [] then JNull
           else if CHR '' '' \<in> set (trim out) then
             JString (takeWhile (\<lambda>c. c \<noteq> CHR '' '')
                        (tl (dropWhile (\<lambda>c. c \<noteq> CHR '' '') (trim out))))
           else JUndefined)
      | JNull \<Rightarrow> JNull
      | JUndefined \<Rightarrow> JNull)"
  by (cases v) (simp_all add: trimmedField_def js_index_split_1)

lemma trimmedField_eq_spec:
  assumes "out \<noteq> []"
    and "\<forall>c\<in>set (trim out). isWhiteSpace c \<longrightarrow> c = CHR '' ''"
    and "[] \<notin> set (js_split CHR '' '' (trim out))"
  shows "trimmedField i (JString out) = spec_trimmedToken i (JString out)"
proof -
  have "trim out \<noteq> []" using assms(3) by auto
  then have "spec_whitespace_tokens (trim out) = js_split CHR '' '' (trim out)"
    using assms(2,3) by (rule tokens_eq_split)
  then show ?thesis using assms(1) by (simp add: trimmedField_def spec_trimmedToken_def)
qed

lemma absent_not_truthy: "absent v \<Longrightarrow> \<not> truthy v"
  by (cases v) auto

section \<open>The methods of \<open>OperaWebDriverInstaller\<close>\<close>

text \<open>
  Claim C1. On a Linux host, \<open>install(driverVersion, outputDirectory)\<close> makes one call,
  \<open>installBinary\<close>, with the archive URL
  \<open>https://github.com/operasoftware/operachromiumdriver/releases/download/v.\<close> followed by
  \<open>driverVersion\<close> and \<open>/operadriver_linux64.zip\<close>, the entry
  \<open>operadriver_linux64/operadriver\<close>, the output name \<open>operadriver\<close>, the given output
  directory and \<open>isZip = true\<close>, and ends as that call ends. For the driver version
  \<open>114.0.5735.90\<close> the URL is the one of the specification's scenario.
\<close>

theorem install_on_linux:
  "os_platform h = ''linux'' \<Longrightarrow>
   install h driverVersion outputDirectory =
     ([InstallBinary
         (''https://github.com/operasoftware/operachromiumdriver/releases/download/v.'' @
          driverVersion @ ''/operadriver_linux64.zip'')
         ''operadriver_linux64/operadriver'' ''operadriver'' outputDirectory True],
      (case installBinary h
              (''https://github.com/operasoftware/operachromiumdriver/releases/download/v.'' @
               driverVersion @ ''/operadriver_linux64.zip'')
              ''operadriver_linux64/operadriver'' ''operadriver'' outputDirectory True of
         Inl r \<Rightarrow> Inl (External r)
       | Inr artifact \<Rightarrow> Inr artifact)) \<and>
   fst (install h ''114.0.5735.90'' outputDirectory) =
     [InstallBinary
        ''https://github.com/operasoftware/operachromiumdriver/releases/download/v.114.0.5735.90/operadriver_linux64.zip''
        ''operadriver_linux64/operadriver'' ''operadriver'' outputDirectory True]"
  by (simp add: install_def installPlatform_def getDriverName_def Let_def)

theorem install_on_linux_witness:
  "os_platform example_host = ''linux'' \<and>
   install example_host ''114.0.5735.90'' ''/opt/drivers'' =
     ([InstallBinary
        ''https://github.com/operasoftware/operachromiumdriver/releases/download/v.114.0.5735.90/operadriver_linux64.zip''
        ''operadriver_linux64/operadriver'' ''operadriver'' ''/opt/drivers'' True],
      Inr (JString ''/opt/drivers/operadriver''))"
  using install_on_linux [of example_host "''114.0.5735.90''" "''/opt/drivers''"]
  by (simp add: example_host_def)

text \<open>
  Claim C2. When the query for the latest tag returns a tag, \<open>getBestDriverVersion\<close> returns
  that tag without its leading \<open>v.\<close>, or else without its leading \<open>v\<close>, or else as it is;
  the tags \<open>v114.0.5735.90\<close>, \<open>v.114.0.5735.90\<close> and \<open>114.0.5735.90\<close> all give
  \<open>114.0.5735.90\<close>.
\<close>

theorem getBestDriverVersion_strips_tag_prefix:
  "fetchLatestGitHubTag h ''operasoftware/operachromiumdriver'' = Inr tag \<Longrightarrow>
   getBestDriverVersion h browserVersion =
     ([FetchLatestGitHubTag ''operasoftware/operachromiumdriver''],
      Inr (if prefix ''v.'' tag then drop 2 tag
           else if prefix ''v'' tag then drop 1 tag
           else tag)) \<and>
   (tag \<in> {''v114.0.5735.90'', ''v.114.0.5735.90'', ''114.0.5735.90''} \<longrightarrow>
      snd (getBestDriverVersion h browserVersion) = Inr ''114.0.5735.90'')"
  by (auto simp: getBestDriverVersion_def replace_tag_prefix)

theorem getBestDriverVersion_strips_tag_prefix_witness:
  "fetchLatestGitHubTag (tag_host ''v114.0.5735.90'') ''operasoftware/operachromiumdriver'' =
     Inr ''v114.0.5735.90'' \<and>
   getBestDriverVersion (tag_host ''v114.0.5735.90'') (JString ''113.0.5230.62'') =
     ([FetchLatestGitHubTag ''operasoftware/operachromiumdriver''], Inr ''114.0.5735.90'') \<and>
   getBestDriverVersion (tag_host ''v.114.0.5735.90'') (JString ''113.0.5230.62'') =
     ([FetchLatestGitHubTag ''operasoftware/operachromiumdriver''], Inr ''114.0.5735.90'') \<and>
   getBestDriverVersion (tag_host ''114.0.5735.90'') (JString ''113.0.5230.62'') =
     ([FetchLatestGitHubTag ''operasoftware/operachromiumdriver''], Inr ''114.0.5735.90'')"
  using
    getBestDriverVersion_strips_tag_prefix
      [of "tag_host ''v114.0.5735.90''" "''v114.0.5735.90''" "JString ''113.0.5230.62''"]
    getBestDriverVersion_strips_tag_prefix
      [of "tag_host ''v.114.0.5735.90''" "''v.114.0.5735.90''" "JString ''113.0.5230.62''"]
    getBestDriverVersion_strips_tag_prefix
      [of "tag_host ''114.0.5735.90''" "''114.0.5735.90''" "JString ''113.0.5230.62''"]
  by (simp add: tag_host_def)

text \<open>
  Claim C3, as amended. \<open>getInstalledDriverVersion(outputDirectory)\<close> makes one call: it runs
  \<open>path.join(outputDirectory, 'operadriver')\<close>, with \<open>.exe\<close> appended on Windows, with the
  argument \<open>--version\<close>. If the command is missing, fails or prints nothing, the result is
  \<open>null\<close>. Otherwise the output is trimmed and cut at every single space character, and
  the result is the second of these fields: the text between the first space and the next
  one (or the end), and \<open>undefined\<close> when the trimmed output has no space. For the output
  \<open>operadriver 114.0.5735.90 (abcd1234)\<close> this is \<open>114.0.5735.90\<close>. Whenever the trimmed
  output has no white space but single spaces between its tokens, the result is its second
  whitespace-delimited token.
\<close>

theorem getInstalledDriverVersion_second_field:
  "(let argv = [path_join h outputDirectory ''operadriver'' @
                  (if os_platform h = ''win32'' then ''.exe'' else ''''),
                ''--version''];
        output = getCommandOutputOrNullIfMissing h argv
    in getInstalledDriverVersion h outputDirectory =
         ([GetCommandOutputOrNullIfMissing argv],
          Inr (case output of
                 JString out \<Rightarrow>
                   (if out = [] then JNull
                    else if CHR '' '' \<in> set (trim out) then
                      JString (takeWhile (\<lambda>c. c \<noteq> CHR '' '')
                                 (tl (dropWhile (\<lambda>c. c \<noteq> CHR '' '') (trim out))))
                    else JUndefined)
               | JNull \<Rightarrow> JNull
               | JUndefined \<Rightarrow> JNull)) \<and>
       (output = JString ''operadriver 114.0.5735.90 (abcd1234)'' \<longrightarrow>
          snd (getInstalledDriverVersion h outputDirectory) = Inr (JString ''114.0.5735.90'')) \<and>
       (\<forall>out. output = JString out \<and> out \<noteq> [] \<and>
              (\<forall>c\<in>set (trim out). isWhiteSpace c \<longrightarrow> c = CHR '' '') \<and>
              [] \<notin> set (js_split CHR '' '' (trim out)) \<longrightarrow>
          snd (getInstalledDriverVersion h outputDirectory) =
            Inr (spec_trimmedToken 1 (JString out))))"
proof -
  let ?argv = "[path_join h outputDirectory ''operadriver'' @
                  (if os_platform h = ''win32'' then ''.exe'' else ''''),
                ''--version'']"
  have run: "getInstalledDriverVersion h outputDirectory =
      ([GetCommandOutputOrNullIfMissing ?argv],
       Inr (trimmedField 1 (getCommandOutputOrNullIfMissing h ?argv)))"
    by (simp add: getInstalledDriverVersion_def getDriverName_def Let_def)
  have example: "trimmedField 1 (JString ''operadriver 114.0.5735.90 (abcd1234)'') =
      JString ''114.0.5735.90''"
    by (simp add: trimmedField_def trim_def isWhiteSpace_def js_index_def)
  show ?thesis
    unfolding Let_def run
    using example trimmedField_eq_spec [of _ 1]
    by (simp add: trimmedField_1 [symmetric])
qed

theorem getInstalledDriverVersion_second_field_witness:
  "getCommandOutputOrNullIfMissing (printing_host ''operadriver 114.0.5735.90 (abcd1234)'')
      [''/opt/drivers/operadriver'', ''--version''] =
     JString ''operadriver 114.0.5735.90 (abcd1234)'' \<and>
   getInstalledDriverVersion (printing_host ''operadriver 114.0.5735.90 (abcd1234)'')
      ''/opt/drivers'' =
     ([GetCommandOutputOrNullIfMissing [''/opt/drivers/operadriver'', ''--version'']],
      Inr (JString ''114.0.5735.90'')) \<and>
   filter isWhiteSpace (trim ''operadriver 114.0.5735.90 (abcd1234)'') = ''  '' \<and>
   js_split CHR '' '' (trim ''operadriver 114.0.5735.90 (abcd1234)'') =
     [''operadriver'', ''114.0.5735.90'', ''(abcd1234)''] \<and>
   spec_trimmedToken 1 (JString ''operadriver 114.0.5735.90 (abcd1234)'') =
     JString ''114.0.5735.90'' \<and>
   getInstalledDriverVersion example_host ''/opt/drivers'' =
     ([GetCommandOutputOrNullIfMissing [''/opt/drivers/operadriver'', ''--version'']],
      Inr JNull)"
proof -
  have token: "spec_trimmedToken 1 (JString ''operadriver 114.0.5735.90 (abcd1234)'') =
      JString ''114.0.5735.90''"
    by (simp add: spec_trimmedToken_def trim_def isWhiteSpace_def js_index_def)
  show ?thesis
    using token
      getInstalledDriverVersion_second_field
        [of "printing_host ''operadriver 114.0.5735.90 (abcd1234)''" "''/opt/drivers''"]
      getInstalledDriverVersion_second_field [of example_host "''/opt/drivers''"]
    by (simp add: printing_host_def example_host_def Let_def trim_def isWhiteSpace_def)
qed

text \<open>
  The claim as the specification words it, with whitespace-delimited tokens, fails: when
  the driver prints its name, a TAB and its version, the second whitespace-delimited token
  is the version but the method returns \<open>undefined\<close>; when it prints two spaces between the
  name and the version, the method returns the empty string.
\<close>

theorem second_whitespace_token_counterexample:
  "snd (getInstalledDriverVersion (printing_host tab_output) ''/opt/drivers'') \<noteq>
     Inr (spec_trimmedToken 1
            (getCommandOutputOrNullIfMissing (printing_host tab_output)
               [''/opt/drivers/operadriver'', ''--version''])) \<and>
   snd (getInstalledDriverVersion (printing_host tab_output) ''/opt/drivers'') = Inr JUndefined \<and>
   spec_trimmedToken 1 (JString tab_output) = JString ''114.0.5735.90'' \<and>
   snd (getInstalledDriverVersion (printing_host two_space_output) ''/opt/drivers'') =
     Inr (JString []) \<and>
   spec_trimmedToken 1 (JString two_space_output) = JString ''114.0.5735.90''"
  by (simp add: getInstalledDriverVersion_def getDriverName_def printing_host_def
      example_host_def tab_output_def two_space_output_def trimmedField_def
      spec_trimmedToken_def trim_def isWhiteSpace_def js_index_def Let_def)

text \<open>
  Claim C4, as amended. On Linux \<open>getInstalledBrowserVersion\<close> first runs
  \<open>/snap/bin/opera --version\<close>. If that gives a result, \<open>opera\<close> on the PATH is not run.
  If it gives none, \<open>opera --version\<close> is run next. If both give none, the result is
  \<open>null\<close> and no error is raised. The output of the probe that succeeded is trimmed and
  reduced to the text before its first space character. Whenever the trimmed output has no
  white space but single spaces between its tokens, that is its first whitespace-delimited
  token.
\<close>

theorem linux_browser_version_probes:
  "os_platform h = ''linux'' \<Longrightarrow>
   (let snap = getCommandOutputOrNullIfMissing h [''/snap/bin/opera'', ''--version''];
        onPath = getCommandOutputOrNullIfMissing h [''opera'', ''--version''];
        firstField =
          (\<lambda>v. case v of
                 JString out \<Rightarrow> JString (takeWhile (\<lambda>c. c \<noteq> CHR '' '') (trim out))
               | JNull \<Rightarrow> JNull
               | JUndefined \<Rightarrow> JNull)
    in getInstalledBrowserVersion h =
         (if truthy snap then
            ([GetCommandOutputOrNullIfMissing [''/snap/bin/opera'', ''--version'']],
             Inr (firstField snap))
          else if truthy onPath then
            ([GetCommandOutputOrNullIfMissing [''/snap/bin/opera'', ''--version''],
              GetCommandOutputOrNullIfMissing [''opera'', ''--version'']],
             Inr (firstField onPath))
          else
            ([GetCommandOutputOrNullIfMissing [''/snap/bin/opera'', ''--version''],
              GetCommandOutputOrNullIfMissing [''opera'', ''--version'']],
             Inr JNull)) \<and>
       (\<forall>out. out \<noteq> [] \<and>
              (snap = JString out \<or> \<not> truthy snap \<and> onPath = JString out) \<and>
              (\<forall>c\<in>set (trim out). isWhiteSpace c \<longrightarrow> c = CHR '' '') \<and>
              [] \<notin> set (js_split CHR '' '' (trim out)) \<longrightarrow>
          snd (getInstalledBrowserVersion h) = Inr (spec_trimmedToken 0 (JString out))))"
proof -
  let ?snap = "getCommandOutputOrNullIfMissing h [''/snap/bin/opera'', ''--version'']"
  let ?onPath = "getCommandOutputOrNullIfMissing h [''opera'', ''--version'']"
  assume linux: "os_platform h = ''linux''"
  have run: "getInstalledBrowserVersion h =
      (if truthy ?snap then
         ([GetCommandOutputOrNullIfMissing [''/snap/bin/opera'', ''--version'']],
          Inr (trimmedField 0 ?snap))
       else
         ([GetCommandOutputOrNullIfMissing [''/snap/bin/opera'', ''--version''],
           GetCommandOutputOrNullIfMissing [''opera'', ''--version'']],
          Inr (trimmedField 0 ?onPath)))"
    using linux by (simp add: getInstalledBrowserVersion_def Let_def)
  have field: "trimmedField 0 v =
        (case v of
           JString out \<Rightarrow> JString (takeWhile (\<lambda>c. c \<noteq> CHR '' '') (trim out))
         | JNull \<Rightarrow> JNull
         | JUndefined \<Rightarrow> JNull)" if "truthy v" for v
    using that by (cases v) (simp_all add: trimmedField_0)
  have null: "trimmedField 0 v = JNull" if "\<not> truthy v" for v
    using that by (cases v) (simp_all add: trimmedField_0)
  have first: "getInstalledBrowserVersion h =
      (if truthy ?snap then
         ([GetCommandOutputOrNullIfMissing [''/snap/bin/opera'', ''--version'']],
          Inr (case ?snap of
                 JString out \<Rightarrow> JString (takeWhile (\<lambda>c. c \<noteq> CHR '' '') (trim out))
               | JNull \<Rightarrow> JNull
               | JUndefined \<Rightarrow> JNull))
       else if truthy ?onPath then
         ([GetCommandOutputOrNullIfMissing [''/snap/bin/opera'', ''--version''],
           GetCommandOutputOrNullIfMissing [''opera'', ''--version'']],
          Inr (case ?onPath of
                 JString out \<Rightarrow> JString (takeWhile (\<lambda>c. c \<noteq> CHR '' '') (trim out))
               | JNull \<Rightarrow> JNull
               | JUndefined \<Rightarrow> JNull))
       else
         ([GetCommandOutputOrNullIfMissing [''/snap/bin/opera'', ''--version''],
           GetCommandOutputOrNullIfMissing [''opera'', ''--version'']],
          Inr JNull))"
    by (cases "truthy ?snap"; cases "truthy ?onPath") (simp_all add: run field null)
  have second: "snd (getInstalledBrowserVersion h) = Inr (spec_trimmedToken 0 (JString out))"
    if "out \<noteq> []" and "?snap = JString out \<or> \<not> truthy ?snap \<and> ?onPath = JString out"
      and "\<forall>c\<in>set (trim out). isWhiteSpace c \<longrightarrow> c = CHR '' ''"
      and "[] \<notin> set (js_split CHR '' '' (trim out))" for out
  proof -
    have "trimmedField 0 (JString out) = spec_trimmedToken 0 (JString out)"
      using that(1,3,4) by (rule trimmedField_eq_spec)
    moreover have "truthy (JString out)" using that(1) by simp
    ultimately show ?thesis using that(2) by (cases "truthy ?snap") (auto simp: run)
  qed
  show ?thesis
    unfolding Let_def
    apply (intro conjI allI impI)
     apply (rule first)
    apply (elim conjE)
    apply (rule second; assumption)
    done
qed

theorem linux_browser_version_probes_witness:
  "os_platform path_only_host = ''linux'' \<and>
   getInstalledBrowserVersion path_only_host =
     ([GetCommandOutputOrNullIfMissing [''/snap/bin/opera'', ''--version''],
       GetCommandOutputOrNullIfMissing [''opera'', ''--version'']],
      Inr (JString ''114.0.5282.102'')) \<and>
   filter isWhiteSpace (trim (''114.0.5282.102 stable'' @ [CHR 0x0A])) = '' '' \<and>
   js_split CHR '' '' (trim (''114.0.5282.102 stable'' @ [CHR 0x0A])) =
     [''114.0.5282.102'', ''stable''] \<and>
   spec_trimmedToken 0 (JString (''114.0.5282.102 stable'' @ [CHR 0x0A])) =
     JString ''114.0.5282.102'' \<and>
   getInstalledBrowserVersion (printing_host ''114.0.5282.102'') =
     ([GetCommandOutputOrNullIfMissing [''/snap/bin/opera'', ''--version'']],
      Inr (JString ''114.0.5282.102'')) \<and>
   getInstalledBrowserVersion example_host =
     ([GetCommandOutputOrNullIfMissing [''/snap/bin/opera'', ''--version''],
       GetCommandOutputOrNullIfMissing [''opera'', ''--version'']],
      Inr JNull)"
proof -
  have token: "spec_trimmedToken 0 (JString (''114.0.5282.102 stable'' @ [CHR 0x0A])) =
      JString ''114.0.5282.102''"
    by (simp add: spec_trimmedToken_def trim_def isWhiteSpace_def js_index_def)
  show ?thesis
    using token
      linux_browser_version_probes [of path_only_host]
      linux_browser_version_probes [of "printing_host ''114.0.5282.102''"]
      linux_browser_version_probes [of example_host]
    by (simp add: path_only_host_def printing_host_def example_host_def Let_def trim_def
        isWhiteSpace_def)
qed

text \<open>
  The claim as the specification words it, with whitespace-delimited tokens, fails: when
  the browser prints its version and a second line, the first whitespace-delimited token is
  the version but the method returns both lines.
\<close>

theorem first_whitespace_token_counterexample:
  "snd (getInstalledBrowserVersion (printing_host two_line_output)) \<noteq>
     Inr (spec_trimmedToken 0
            (getCommandOutputOrNullIfMissing (printing_host two_line_output)
               [''/snap/bin/opera'', ''--version''])) \<and>
   getInstalledBrowserVersion (printing_host two_line_output) =
     ([GetCommandOutputOrNullIfMissing [''/snap/bin/opera'', ''--version'']],
      Inr (JString (''114.0.5735.90'' @ CHR 0x0A # ''stable''))) \<and>
   spec_trimmedToken 0 (JString two_line_output) = JString ''114.0.5735.90''"
  by (simp add: getInstalledBrowserVersion_def printing_host_def example_host_def
      two_line_output_def trimmedField_def spec_trimmedToken_def trim_def isWhiteSpace_def
      js_index_def Let_def)

text \<open>
  Claim C5. On a host whose platform is none of \<open>darwin\<close>, \<open>linux\<close> and \<open>win32\<close>, both
  \<open>getInstalledBrowserVersion\<close> and \<open>install\<close> throw the error
  \<open>Unsupported platform: <platform>\<close> without having called any collaborator; in
  particular no call reached the network or wrote a file.
\<close>

theorem unsupported_platform_raises:
  "os_platform h \<notin> {''darwin'', ''linux'', ''win32''} \<Longrightarrow>
   getInstalledBrowserVersion h =
     ([], Inl (Error (''Unsupported platform: '' @ os_platform h))) \<and>
   install h driverVersion outputDirectory =
     ([], Inl (Error (''Unsupported platform: '' @ os_platform h))) \<and>
   filter network_or_write (fst (getInstalledBrowserVersion h)) = [] \<and>
   filter network_or_write (fst (install h driverVersion outputDirectory)) = []"
  by (simp add: getInstalledBrowserVersion_def install_def installPlatform_def Let_def
      unsupportedPlatform_def)

theorem unsupported_platform_raises_witness:
  "os_platform (example_host\<lparr>os_platform := ''freebsd''\<rparr>) \<notin> {''darwin'', ''linux'', ''win32''} \<and>
   getInstalledBrowserVersion (example_host\<lparr>os_platform := ''freebsd''\<rparr>) =
     ([], Inl (Error ''Unsupported platform: freebsd'')) \<and>
   install (example_host\<lparr>os_platform := ''freebsd''\<rparr>) ''114.0.5735.90'' ''/opt/drivers'' =
     ([], Inl (Error ''Unsupported platform: freebsd''))"
  using unsupported_platform_raises
      [of "example_host\<lparr>os_platform := ''freebsd''\<rparr>" "''114.0.5735.90''" "''/opt/drivers''"]
  by simp

text \<open>
  Claim C6. On each of \<open>linux\<close>, \<open>darwin\<close> and \<open>win32\<close>, \<open>install\<close> selects one platform tag:
  \<open>linux64\<close>, \<open>mac64\<close>, and \<open>win64\<close> with the binary name \<open>operadriver.exe\<close>, and makes
  the one call of \<open>installBinary\<close> built from that tag; the branch that throws
  \<open>Unsupported platform\<close> is not taken, so \<open>install\<close> never ends with an error of its own.
\<close>

theorem install_selects_platform_tag:
  "os_platform h \<in> {''linux'', ''darwin'', ''win32''} \<Longrightarrow>
   (os_platform h = ''linux'' \<longrightarrow>
      installPlatform h = Inr (''linux64'', ''operadriver'') \<and>
      fst (install h driverVersion outputDirectory) =
        [InstallBinary
           (''https://github.com/operasoftware/operachromiumdriver/releases/download/v.'' @
            driverVersion @ ''/operadriver_linux64.zip'')
           ''operadriver_linux64/operadriver'' ''operadriver'' outputDirectory True]) \<and>
   (os_platform h = ''darwin'' \<longrightarrow>
      installPlatform h = Inr (''mac64'', ''operadriver'') \<and>
      fst (install h driverVersion outputDirectory) =
        [InstallBinary
           (''https://github.com/operasoftware/operachromiumdriver/releases/download/v.'' @
            driverVersion @ ''/operadriver_mac64.zip'')
           ''operadriver_mac64/operadriver'' ''operadriver'' outputDirectory True]) \<and>
   (os_platform h = ''win32'' \<longrightarrow>
      installPlatform h = Inr (''win64'', ''operadriver.exe'') \<and>
      fst (install h driverVersion outputDirectory) =
        [InstallBinary
           (''https://github.com/operasoftware/operachromiumdriver/releases/download/v.'' @
            driverVersion @ ''/operadriver_win64.zip'')
           ''operadriver_win64/operadriver.exe'' ''operadriver.exe'' outputDirectory True]) \<and>
   installPlatform h \<noteq> Inl (unsupportedPlatform h) \<and>
   (\<forall>msg. snd (install h driverVersion outputDirectory) \<noteq> Inl (Error msg))"
  by (auto simp: install_def installPlatform_def getDriverName_def Let_def split: sum.splits)

theorem install_selects_platform_tag_witness:
  "os_platform (example_host\<lparr>os_platform := ''win32''\<rparr>) \<in> {''linux'', ''darwin'', ''win32''} \<and>
   installPlatform (example_host\<lparr>os_platform := ''win32''\<rparr>) = Inr (''win64'', ''operadriver.exe'') \<and>
   fst (install (example_host\<lparr>os_platform := ''win32''\<rparr>) ''114.0.5735.90'' ''out'') =
     [InstallBinary
        ''https://github.com/operasoftware/operachromiumdriver/releases/download/v.114.0.5735.90/operadriver_win64.zip''
        ''operadriver_win64/operadriver.exe'' ''operadriver.exe'' ''out'' True] \<and>
   installPlatform (example_host\<lparr>os_platform := ''darwin''\<rparr>) = Inr (''mac64'', ''operadriver'') \<and>
   installPlatform (example_host\<lparr>os_platform := ''linux''\<rparr>) = Inr (''linux64'', ''operadriver'')"
  using
    install_selects_platform_tag
      [of "example_host\<lparr>os_platform := ''win32''\<rparr>" "''114.0.5735.90''" "''out''"]
    install_selects_platform_tag
      [of "example_host\<lparr>os_platform := ''darwin''\<rparr>" "''114.0.5735.90''" "''out''"]
    install_selects_platform_tag
      [of "example_host\<lparr>os_platform := ''linux''\<rparr>" "''114.0.5735.90''" "''out''"]
  by simp

text \<open>
  Claim C7. On Windows, with the user name known, \<open>getInstalledBrowserVersion\<close> asks for the
  version of \<open>opera.exe\<close> in the folder \<open>Opera\<close> under \<open>Program Files\<close>, then under
  \<open>Program Files (x86)\<close>, then under \<open>AppData/Local/Programs\<close> of the user's folder in
  \<open>Users\<close> (all on drive \<open>C:\<close>, written with backslashes), in this order, and returns the
  first version found without asking further. Only when none of the three gives a version
  does it ask for \<open>opera.exe\<close> on the PATH, and it returns that answer, absent or not.
\<close>

theorem windows_probe_order:
  "os_platform h = ''win32'' \<Longrightarrow> os_userInfo_username h = Inr username \<Longrightarrow>
   (let programFiles =
          ''C:'' @ CHR 0x5C # ''Program Files'' @ CHR 0x5C # ''Opera'' @ CHR 0x5C # ''opera.exe'';
        programFilesX86 =
          ''C:'' @ CHR 0x5C # ''Program Files (x86)'' @ CHR 0x5C # ''Opera'' @ CHR 0x5C #
          ''opera.exe'';
        perUser =
          ''C:'' @ CHR 0x5C # ''Users'' @ CHR 0x5C # username @ CHR 0x5C # ''AppData'' @
          CHR 0x5C # ''Local'' @ CHR 0x5C # ''Programs'' @ CHR 0x5C # ''Opera'' @ CHR 0x5C #
          ''opera.exe''
    in getInstalledBrowserVersion h =
         (if truthy (getWindowsExeVersion h programFiles) then
            ([GetWindowsExeVersion programFiles], Inr (getWindowsExeVersion h programFiles))
          else if truthy (getWindowsExeVersion h programFilesX86) then
            ([GetWindowsExeVersion programFiles, GetWindowsExeVersion programFilesX86],
             Inr (getWindowsExeVersion h programFilesX86))
          else if truthy (getWindowsExeVersion h perUser) then
            ([GetWindowsExeVersion programFiles, GetWindowsExeVersion programFilesX86,
              GetWindowsExeVersion perUser],
             Inr (getWindowsExeVersion h perUser))
          else
            ([GetWindowsExeVersion programFiles, GetWindowsExeVersion programFilesX86,
              GetWindowsExeVersion perUser, GetWindowsExeVersion ''opera.exe''],
             Inr (getWindowsExeVersion h ''opera.exe''))))"
  by (simp add: getInstalledBrowserVersion_def possiblePaths_def backslash_def Let_def)

theorem windows_probe_order_witness:
  "os_platform windows_host = ''win32'' \<and> os_userInfo_username windows_host = Inr ''alice'' \<and>
   getInstalledBrowserVersion windows_host =
     ([GetWindowsExeVersion
         (''C:'' @ CHR 0x5C # ''Program Files'' @ CHR 0x5C # ''Opera'' @ CHR 0x5C # ''opera.exe''),
       GetWindowsExeVersion
         (''C:'' @ CHR 0x5C # ''Program Files (x86)'' @ CHR 0x5C # ''Opera'' @ CHR 0x5C #
          ''opera.exe'')],
      Inr (JString ''114.0.5282.102''))"
  using windows_probe_order [of windows_host "''alice''"]
  by (simp add: windows_host_def example_host_def Let_def)

text \<open>
  Claim C8. On macOS \<open>getInstalledBrowserVersion\<close> asks for the bundle \<open>Opera\<close>; if that
  gives a version, it is returned and \<open>Opera Stable\<close> is not asked for. Otherwise
  \<open>Opera Stable\<close> is asked for and its answer is returned. No other bundle is tried, and if
  both are absent the result is absent.
\<close>

theorem macos_bundle_candidates:
  "os_platform h = ''darwin'' \<Longrightarrow>
   getInstalledBrowserVersion h =
     (if truthy (getMacAppVersion h ''Opera'') then
        ([GetMacAppVersion ''Opera''], Inr (getMacAppVersion h ''Opera''))
      else
        ([GetMacAppVersion ''Opera'', GetMacAppVersion ''Opera Stable''],
         Inr (getMacAppVersion h ''Opera Stable''))) \<and>
   (absent (getMacAppVersion h ''Opera'') \<and> absent (getMacAppVersion h ''Opera Stable'') \<longrightarrow>
      (\<exists>v. snd (getInstalledBrowserVersion h) = Inr v \<and> absent v))"
  by (auto simp: getInstalledBrowserVersion_def Let_def dest: absent_not_truthy)

theorem macos_bundle_candidates_witness:
  "os_platform (mac_host JNull (JString ''114.0.5282.102'')) = ''darwin'' \<and>
   getInstalledBrowserVersion (mac_host JNull (JString ''114.0.5282.102'')) =
     ([GetMacAppVersion ''Opera'', GetMacAppVersion ''Opera Stable''],
      Inr (JString ''114.0.5282.102'')) \<and>
   getInstalledBrowserVersion (mac_host (JString ''113.0.5230.62'') (JString ''114.0.5282.102'')) =
     ([GetMacAppVersion ''Opera''], Inr (JString ''113.0.5230.62'')) \<and>
   absent (getMacAppVersion (mac_host JNull JUndefined) ''Opera'') \<and>
   absent (getMacAppVersion (mac_host JNull JUndefined) ''Opera Stable'') \<and>
   getInstalledBrowserVersion (mac_host JNull JUndefined) =
     ([GetMacAppVersion ''Opera'', GetMacAppVersion ''Opera Stable''], Inr JUndefined)"
  using
    macos_bundle_candidates [of "mac_host JNull (JString ''114.0.5282.102'')"]
    macos_bundle_candidates
      [of "mac_host (JString ''113.0.5230.62'') (JString ''114.0.5282.102'')"]
    macos_bundle_candidates [of "mac_host JNull JUndefined"]
  by (simp add: mac_host_def)

text \<open>
  Claim C9. The run of \<open>getBestDriverVersion\<close> (its one call and its result) is determined
  by what the latest-tag query answers for \<open>operasoftware/operachromiumdriver\<close>: two hosts
  that agree on that answer give the same run, whatever the two \<open>browserVersion\<close> arguments
  are.
\<close>

theorem getBestDriverVersion_ignores_browserVersion:
  "fetchLatestGitHubTag h1 ''operasoftware/operachromiumdriver'' =
     fetchLatestGitHubTag h2 ''operasoftware/operachromiumdriver'' \<Longrightarrow>
   getBestDriverVersion h1 browserVersion1 = getBestDriverVersion h2 browserVersion2"
  by (simp add: getBestDriverVersion_def)

theorem getBestDriverVersion_ignores_browserVersion_witness:
  "fetchLatestGitHubTag example_host ''operasoftware/operachromiumdriver'' =
     fetchLatestGitHubTag (example_host\<lparr>os_platform := ''win32''\<rparr>)
       ''operasoftware/operachromiumdriver'' \<and>
   getBestDriverVersion example_host (JString ''113.0.5230.62'') =
     getBestDriverVersion (example_host\<lparr>os_platform := ''win32''\<rparr>) JNull"
  using getBestDriverVersion_ignores_browserVersion
      [of example_host "example_host\<lparr>os_platform := ''win32''\<rparr>"
          "JString ''113.0.5230.62''" JNull]
  by simp

text \<open>
  Claim C10. If the driver prints a non-empty output whose trimmed text has no space
  character, \<open>getInstalledDriverVersion\<close> returns \<open>undefined\<close>, an absent result: it
  raises no error and does not return the first token.
\<close>

theorem single_field_output_gives_undefined:
  "getCommandOutputOrNullIfMissing h
      [path_join h outputDirectory ''operadriver'' @
         (if os_platform h = ''win32'' then ''.exe'' else ''''),
       ''--version''] = JString out \<Longrightarrow>
   out \<noteq> [] \<Longrightarrow> CHR '' '' \<notin> set (trim out) \<Longrightarrow>
   snd (getInstalledDriverVersion h outputDirectory) = Inr JUndefined \<and> absent JUndefined"
  by (auto simp: getInstalledDriverVersion_def getDriverName_def Let_def trimmedField_1)

theorem single_field_output_gives_undefined_witness:
  "getCommandOutputOrNullIfMissing (printing_host ''114.0.5735.90'')
      [path_join (printing_host ''114.0.5735.90'') ''/opt/drivers'' ''operadriver'' @
         (if os_platform (printing_host ''114.0.5735.90'') = ''win32'' then ''.exe'' else ''''),
       ''--version''] = JString ''114.0.5735.90'' \<and>
   CHR '' '' \<notin> set (trim ''114.0.5735.90'') \<and>
   snd (getInstalledDriverVersion (printing_host ''114.0.5735.90'') ''/opt/drivers'') =
     Inr JUndefined"
  using single_field_output_gives_undefined
      [of "printing_host ''114.0.5735.90''" "''/opt/drivers''" "''114.0.5735.90''"]
  by (simp add: printing_host_def example_host_def trim_def isWhiteSpace_def)

end
